theory Spec2Isabelle
  imports Complex_Main
begin

section \<open>Data model\<close>

text \<open>
  The services are JavaScript classes with static methods over Mongoose documents.
  Exceptions are values: a function that can throw returns \<open>error + 'a\<close> with \<open>Inl\<close>
  the error. Instants are milliseconds since the epoch (what \<open>Date\<close> arithmetic
  yields); every reading of the clock (\<open>new Date()\<close>, \<open>Date.now()\<close>) is a parameter.
  A risk score is a JavaScript number; every value the scorers compute is a multiple of
  one half far below \<open>2^53\<close>, so the arithmetic is exact and is modelled in \<open>rat\<close>.
\<close>

datatype error = TypeError | ReferenceError | ValidationError | StoreError

datatype risk_level = LOW | MEDIUM | HIGH | CRITICAL

text \<open>
  The \<open>details\<close> payload of an audit entry as the fraud detector reads it: the two
  properties \<open>location\<close> and \<open>userAgent\<close>, each a string or missing (\<open>None\<close> is
  JavaScript's \<open>undefined\<close>).
\<close>

record details =
  location :: "string option"
  userAgent :: "string option"

text \<open>
  A document of the \<open>audit_logs\<close> collection (\<open>AuditLogSchema\<close>). The payload type is
  free (\<open>Mixed\<close> in the schema); \<open>None\<close> in \<open>details\<close> is a missing or empty payload.
  \<open>action\<close> is \<open>None\<close> when the caller left it out.
\<close>

record 'd AuditLog =
  user_id :: "string option"
  username :: "string option"
  email :: "string option"
  role :: "string option"
  action :: "string option"
  details :: "'d option"
  timestamp :: int
  ipAddress :: "string option"
  log_userAgent :: "string option"
  success :: bool

text \<open>
  The fields of a user and of an event document that the services read: the id, the
  creation instant (\<open>createdAt\<close>, which the schemas default to the instant of
  creation), the list \<open>registeredEvents\<close> and \<open>contactInfo.ipAddress\<close> of a user, the
  list \<open>participants\<close> and the optional number \<open>capacity\<close> of an event. Ids are
  strings.
\<close>

record User =
  uid :: string
  user_createdAt :: int
  registeredEvents :: "string list"
  contactInfo_ipAddress :: "string option"

record Event =
  eid :: string
  participants :: "string list"
  capacity :: "nat option"
  event_createdAt :: int

section \<open>FraudDetectionService: the risk scorer\<close>

text \<open>\<open>log.details?.location\<close> and \<open>log.details?.userAgent\<close>.\<close>

definition details_location :: "details AuditLog \<Rightarrow> string option" where
  "details_location entry = (case details entry of None \<Rightarrow> None | Some d \<Rightarrow> location d)"

definition details_userAgent :: "details AuditLog \<Rightarrow> string option" where
  "details_userAgent entry = (case details entry of None \<Rightarrow> None | Some d \<Rightarrow> userAgent d)"

text \<open>\<open>Boolean(v)\<close> for a string or \<open>undefined\<close>: the empty string and \<open>undefined\<close> are falsy.\<close>

definition Boolean :: "string option \<Rightarrow> bool" where
  "Boolean v = (case v of None \<Rightarrow> False | Some s \<Rightarrow> s \<noteq> [])"

definition failedLogins :: "details AuditLog list \<Rightarrow> details AuditLog list" where
  "failedLogins activities =
     filter (\<lambda>entry. action entry = Some ''LOGIN_ATTEMPT'' \<and> \<not> success entry) activities"

definition uniqueLoginLocations :: "details AuditLog list \<Rightarrow> string option set" where
  "uniqueLoginLocations activities = set (filter Boolean (map details_location activities))"

definition uniqueDevices :: "details AuditLog list \<Rightarrow> string option set" where
  "uniqueDevices activities = set (filter Boolean (map details_userAgent activities))"

definition loginTimestamps :: "details AuditLog list \<Rightarrow> int list" where
  "loginTimestamps activities =
     map timestamp (filter (\<lambda>entry. action entry = Some ''LOGIN_ATTEMPT'') activities)"

text \<open>
  \<open>loginTimestamps.map((time, index) => index > 0 ? Math.abs(time - loginTimestamps[index - 1]) : 0)\<close>:
  one entry per login timestamp, the entry at index 0 being the constant 0.
\<close>

definition timeDifferences :: "int list \<Rightarrow> int list" where
  "timeDifferences ts =
     map (\<lambda>index. if index > 0 then \<bar>ts ! index - ts ! (index - 1)\<bar> else 0) [0..<length ts]"

definition irregularTimePatterns :: "int list \<Rightarrow> int list" where
  "irregularTimePatterns differences =
     filter (\<lambda>d. d < 60000 \<or> d > 86400000) differences"

text \<open>
  For comparison with \<open>timeDifferences\<close>: the gaps between consecutive login timestamps,
  one for each pair of neighbours, as the specification describes the signal.
\<close>

fun consecutive_gaps :: "int list \<Rightarrow> int list" where
  "consecutive_gaps (a # b # ts) = \<bar>b - a\<bar> # consecutive_gaps (b # ts)"
| "consecutive_gaps _ = []"

text \<open>\<open>(now - user.createdAt) / (1000 * 3600 * 24)\<close>, computed by both risk scorers.\<close>

definition accountAgeInDays :: "int \<Rightarrow> User \<Rightarrow> rat" where
  "accountAgeInDays now u = of_int (now - user_createdAt u) / (1000 * 3600 * 24)"

text \<open>
  \<open>calculateRiskScore(user, activities)\<close>; \<open>now\<close> is the \<open>new Date()\<close> of its second
  line. \<open>user\<close> is \<open>None\<close> when the caller passes \<open>null\<close> (an unknown id):
  \<open>user.createdAt\<close> then throws a TypeError.
\<close>

definition calculateRiskScore :: "int \<Rightarrow> User option \<Rightarrow> details AuditLog list \<Rightarrow> error + rat" where
  "calculateRiskScore now user activities =
     (case user of
        None \<Rightarrow> Inl TypeError
      | Some u \<Rightarrow>
          (let riskScore = (0::rat);
               age = accountAgeInDays now u;
               riskScore = (if age < 30 then riskScore + 3 else riskScore);
               riskScore = (if age < 60 then riskScore + 2 else riskScore);
               riskScore = riskScore + min (of_nat (length (failedLogins activities)) * (1 / 2)) 2;
               riskScore = (if card (uniqueLoginLocations activities) > 3 then riskScore + 1 else riskScore);
               riskScore = (if card (uniqueDevices activities) > 3 then riskScore + 1 else riskScore);
               riskScore =
                 (if length (irregularTimePatterns (timeDifferences (loginTimestamps activities))) > 2
                  then riskScore + 1 else riskScore)
           in Inr (min (max riskScore 0) 10)))"

definition determineRiskLevel :: "rat \<Rightarrow> risk_level" where
  "determineRiskLevel riskScore =
     (if riskScore \<le> 2 then LOW
      else if riskScore \<le> 5 then MEDIUM
      else if riskScore \<le> 7 then HIGH
      else CRITICAL)"

text \<open>The order of the levels, \<open>LOW < MEDIUM < HIGH < CRITICAL\<close>, as a rank.\<close>

fun level_rank :: "risk_level \<Rightarrow> nat" where
  "level_rank LOW = 0"
| "level_rank MEDIUM = 1"
| "level_rank HIGH = 2"
| "level_rank CRITICAL = 3"

section \<open>AuditLogService\<close>

text \<open>
  The argument object of \<open>AuditLogService.log\<close>; a missing property is \<open>None\<close>.
\<close>

record 'd log_options =
  opt_userId :: "string option"
  opt_username :: "string option"
  opt_email :: "string option"
  opt_role :: "string option"
  opt_action :: "string option"
  opt_details :: "'d option"
  opt_ipAddress :: "string option"
  opt_userAgent :: "string option"
  opt_success :: "bool option"

text \<open>The \<open>enum\<close> of the schema's \<open>action\<close> path.\<close>

definition action_enum :: "string list" where
  "action_enum =
     [''LOGIN_ATTEMPT'', ''LOGIN_SUCCESS'', ''LOGIN_FAILURE'', ''LOGOUT'', ''PASSWORD_CHANGE'',
      ''PASSWORD_RESET'', ''USER_REGISTRATION'', ''USER_PROFILE_UPDATE'', ''USER_ROLE_CHANGE'',
      ''2FA_ENABLE'', ''2FA_DISABLE'', ''2FA_VERIFY'', ''OAUTH_LOGIN'', ''EVENT_CREATE'',
      ''EVENT_UPDATE'', ''EVENT_DELETE'', ''EVENT_REGISTRATION'', ''EVENT_CANCELLATION'',
      ''API_ACCESS'', ''PERMISSION_DENIED'', ''SYSTEM_ERROR'']"

text \<open>
  Schema validation as \<open>save\<close> runs it: \<open>user.id\<close> and \<open>action\<close> are required, and
  \<open>action\<close> must be one of the enumerated values.
\<close>

definition schema_valid :: "'d AuditLog \<Rightarrow> bool" where
  "schema_valid doc =
     (user_id doc \<noteq> None \<and>
      (case action doc of None \<Rightarrow> False | Some a \<Rightarrow> a \<in> set action_enum))"

text \<open>
  \<open>auditLog.save()\<close>. The collection behind it is an external store: \<open>sink\<close> says, for
  each document, whether the write fails and with which error. The written document is
  not read back by the call that writes it, so the collection after the write is not
  part of the result.
\<close>

definition save :: "('d AuditLog \<Rightarrow> error option) \<Rightarrow> 'd AuditLog \<Rightarrow> error + 'd AuditLog" where
  "save sink doc =
     (if \<not> schema_valid doc then Inl ValidationError
      else (case sink doc of Some e \<Rightarrow> Inl e | None \<Rightarrow> Inr doc))"

text \<open>
  \<open>AuditLogService.log(options)\<close>. The body of the \<open>try\<close> is \<open>log_body\<close>: destructuring
  \<open>undefined\<close> throws a TypeError, \<open>details\<close> and \<open>success\<close> take their defaults,
  \<open>timestamp\<close> takes the schema default \<open>Date.now\<close>. The \<open>catch\<close> only writes to the
  console and falls through, so the function then returns \<open>undefined\<close> (\<open>None\<close>).
\<close>

definition log_body ::
  "('d AuditLog \<Rightarrow> error option) \<Rightarrow> int \<Rightarrow> 'd log_options option \<Rightarrow> error + 'd AuditLog" where
  "log_body sink now options =
     (case options of
        None \<Rightarrow> Inl TypeError
      | Some opts \<Rightarrow>
          (let auditLog =
                 \<lparr>user_id = opt_userId opts, username = opt_username opts,
                  email = opt_email opts, role = opt_role opts,
                  action = opt_action opts, details = opt_details opts,
                  timestamp = now, ipAddress = opt_ipAddress opts,
                  log_userAgent = opt_userAgent opts,
                  success = (case opt_success opts of None \<Rightarrow> True | Some b \<Rightarrow> b)\<rparr>
           in save sink auditLog))"

definition AuditLogService_log ::
  "('d AuditLog \<Rightarrow> error option) \<Rightarrow> int \<Rightarrow> 'd log_options option \<Rightarrow> error + 'd AuditLog option" where
  "AuditLogService_log sink now options =
     (case log_body sink now options of
        Inr auditLog \<Rightarrow> Inr (Some auditLog)
      | Inl err \<Rightarrow> Inr None)"

text \<open>
  The second argument of \<open>getLogs\<close>. Only \<open>page\<close>, \<open>limit\<close> and \<open>sort\<close> are
  destructured; \<open>dollar_group\<close> is the \<open>$group\<close> property that \<open>detectIPBasedFraud\<close>
  passes (its content does not matter: nothing reads it). \<open>sort_timestamp\<close> is the
  direction of the sort on \<open>timestamp\<close>, \<open>-1\<close> by default.
\<close>

record getLogs_options =
  opt_page :: "nat option"
  opt_limit :: "nat option"
  sort_timestamp :: "int option"
  dollar_group :: "unit option"

text \<open>The result object of \<open>paginate\<close> (mongoose-paginate-v2).\<close>

record 'd PaginateResult =
  docs :: "'d AuditLog list"
  totalDocs :: nat

text \<open>
  \<open>paginate(filters, {page, limit, sort})\<close> as the mongoose-paginate-v2 plugin defines
  it for a model whose schema applies the plugin: the documents that match, sorted on
  \<open>timestamp\<close>, cut to the requested page. A filter object is its predicate.
\<close>

definition paginate ::
  "'d AuditLog list \<Rightarrow> ('d AuditLog \<Rightarrow> bool) \<Rightarrow> nat \<Rightarrow> nat \<Rightarrow> int \<Rightarrow> 'd PaginateResult" where
  "paginate collection filters page limit direction =
     (let matching = filter filters collection;
          ascending = sort_key timestamp matching;
          ordered = (if direction < 0 then rev ascending else ascending)
      in \<lparr>docs = take limit (drop ((page - 1) * limit) ordered),
          totalDocs = length matching\<rparr>)"

text \<open>
  The three models of the repository. A model has the method \<open>paginate\<close> only when its
  schema applies the plugin, and the one \<open>plugin\<close> call of the repository is
  \<open>EventSchema.plugin(mongoosePaginate)\<close>: \<open>AuditLogSchema\<close> is compiled into the model
  \<open>AuditLog\<close> without it.
\<close>

datatype model = UserModel | EventModel | AuditLogModel

definition applies_paginate :: "model \<Rightarrow> bool" where
  "applies_paginate m = (m = EventModel)"

text \<open>
  \<open>AuditLogService.getLogs(filters, options)\<close>. Calling the missing method
  \<open>AuditLog.paginate\<close> throws a TypeError inside the \<open>try\<close>, and the \<open>catch\<close> rethrows.
\<close>

definition getLogs ::
  "'d AuditLog list \<Rightarrow> ('d AuditLog \<Rightarrow> bool) \<Rightarrow> getLogs_options \<Rightarrow> error + 'd PaginateResult" where
  "getLogs collection filters options =
     (let page = (case opt_page options of None \<Rightarrow> 1 | Some p \<Rightarrow> p);
          limit = (case opt_limit options of None \<Rightarrow> 50 | Some l \<Rightarrow> l);
          direction = (case sort_timestamp options of None \<Rightarrow> - 1 | Some d \<Rightarrow> d)
      in if applies_paginate AuditLogModel
         then Inr (paginate collection filters page limit direction)
         else Inl TypeError)"

text \<open>\<open>getLogs(filters)\<close> with the second argument left out.\<close>

definition no_options :: getLogs_options where
  "no_options = \<lparr>opt_page = None, opt_limit = None, sort_timestamp = None, dollar_group = None\<rparr>"

section \<open>The database\<close>

text \<open>
  The three collections, each a list of documents. The queries \<open>findById\<close>,
  \<open>countDocuments\<close> and \<open>aggregate\<close> of a Mongoose model are functions of these lists
  with the results their documentation describes.
\<close>

record database =
  auditLogs :: "details AuditLog list"
  users :: "User list"
  events :: "Event list"

text \<open>\<open>Model.findById(id)\<close>: the document, or \<open>null\<close>.\<close>

definition User_findById :: "User list \<Rightarrow> string \<Rightarrow> User option" where
  "User_findById collection i = find (\<lambda>u. uid u = i) collection"

definition Event_findById :: "Event list \<Rightarrow> string \<Rightarrow> Event option" where
  "Event_findById collection i = find (\<lambda>e. eid e = i) collection"

text \<open>
  \<open>d.setHours(d.getHours() - 24)\<close> on the current date: the instant 24 hours earlier
  (on a clock without a daylight-saving change in between).
\<close>

definition twentyFourHoursBefore :: "int \<Rightarrow> int" where
  "twentyFourHoursBefore now = now - 24 * 3600 * 1000"

text \<open>
  \<open>mongoose.Types.ObjectId(id)\<close>, a call without \<open>new\<close>. The repository declares
  \<open>mongoose ^8.8.4\<close>, where \<open>ObjectId\<close> is a class: calling it as a function throws
  a TypeError.
\<close>

definition ObjectId_call :: "string \<Rightarrow> error + string" where
  "ObjectId_call i = Inl TypeError"

section \<open>FraudDetectionService: the detectors\<close>

record risk =
  riskScore :: rat
  riskLevel :: risk_level

record contextual_risks =
  multipleDevices :: bool
  geographicalInconsistency :: bool

record activity_report = risk +
  userId :: string
  suspiciousActivities :: "details AuditLog list"
  contextualRisks :: contextual_risks

text \<open>The \<open>details\<close> payloads that the detectors and the registration guard write.\<close>

datatype log_details =
  AdvancedRiskAssessment rat risk_level contextual_risks nat
| IpFraudDetection "string option list" nat
| RegistrationRateLimitExceeded string nat
| RegistrationRiskAssessment string rat risk_level

text \<open>An argument object for \<open>AuditLogService.log\<close> with the properties the callers set.\<close>

definition log_call ::
  "string option \<Rightarrow> string \<Rightarrow> log_details \<Rightarrow> bool option \<Rightarrow> log_details log_options option" where
  "log_call u a d s =
     Some \<lparr>opt_userId = u, opt_username = None, opt_email = None, opt_role = None,
           opt_action = Some a, opt_details = Some d, opt_ipAddress = None,
           opt_userAgent = None, opt_success = s\<rparr>"

text \<open>
  The filter object of \<open>detectSuspiciousUserActivity\<close>, on \<open>user.id\<close> and
  \<open>timestamp >= twentyFourHoursAgo\<close>, as a predicate on entries.
\<close>

definition activityFilter :: "int \<Rightarrow> string \<Rightarrow> details AuditLog \<Rightarrow> bool" where
  "activityFilter now i entry =
     (user_id entry = Some i \<and> twentyFourHoursBefore now \<le> timestamp entry)"

text \<open>
  The query of \<open>detectSuspiciousUserActivity\<close>: building the filter object evaluates
  \<open>mongoose.Types.ObjectId(userId)\<close>, then \<open>getLogs\<close> is called with the filter and no
  options.
\<close>

definition userActivityQuery :: "database \<Rightarrow> int \<Rightarrow> string \<Rightarrow> error + details PaginateResult" where
  "userActivityQuery db now i =
     (case ObjectId_call i of
        Inl err \<Rightarrow> Inl err
      | Inr objectId \<Rightarrow> getLogs (auditLogs db) (activityFilter now objectId) no_options)"

text \<open>
  \<open>detectSuspiciousUserActivity(userId)\<close>. Each call reads the clock once in the model
  (\<open>now\<close>): the instants one call reads lie within its running time.
  \<open>Promise.all\<close> rejects when the query does, and the \<open>catch\<close> rethrows, so an error
  inside is the result.
\<close>

definition detectSuspiciousUserActivity ::
  "(log_details AuditLog \<Rightarrow> error option) \<Rightarrow> database \<Rightarrow> int \<Rightarrow> string \<Rightarrow> error + activity_report" where
  "detectSuspiciousUserActivity sink db now i =
     (let user = User_findById (users db) i
      in case userActivityQuery db now i of
           Inl err \<Rightarrow> Inl err
         | Inr found \<Rightarrow>
             (case calculateRiskScore now user (docs found) of
                Inl err \<Rightarrow> Inl err
              | Inr score \<Rightarrow>
                  (let level = determineRiskLevel score;
                       flags =
                         \<lparr>multipleDevices = card (set (map details_userAgent (docs found))) > 2,
                          geographicalInconsistency =
                            card (set (map details_location (docs found))) > 2\<rparr>
                   in case AuditLogService_log sink now
                             (log_call (Some i) ''ADVANCED_RISK_ASSESSMENT''
                                (AdvancedRiskAssessment score level flags (length (docs found)))
                                None) of
                        Inl err \<Rightarrow> Inl err
                      | Inr _ \<Rightarrow>
                          Inr \<lparr>riskScore = score, riskLevel = level, userId = i,
                               suspiciousActivities = docs found, contextualRisks = flags\<rparr>)))"

text \<open>A group as the \<open>$group\<close> stage written in \<open>detectIPBasedFraud\<close> would produce it.\<close>

record ip_group =
  group_id :: "string option"
  failedAttempts :: nat
  uniqueUsers :: "string option list"
  actions :: "string option list"

text \<open>
  The \<open>$group\<close> stage as \<open>detectIPBasedFraud\<close> writes it, on a list of entries: one
  group for each source address, with the number of its entries, the set of its users
  and the list of its actions.
\<close>

definition group_stage :: "details AuditLog list \<Rightarrow> ip_group list" where
  "group_stage entries =
     map (\<lambda>ip. \<lparr>group_id = ip,
                 failedAttempts = length (filter (\<lambda>e. ipAddress e = ip) entries),
                 uniqueUsers = remdups (map user_id (filter (\<lambda>e. ipAddress e = ip) entries)),
                 actions = map action (filter (\<lambda>e. ipAddress e = ip) entries)\<rparr>)
       (remdups (map ipAddress entries))"

text \<open>
  What a variable holding a query result can be at run time, and \<open>value.filter(p)\<close> on
  it: an array has the method; a result object of \<open>paginate\<close> has no \<open>filter\<close>
  property, so calling it throws a TypeError.
\<close>

datatype query_value = ArrayOf "ip_group list" | ResultObject "details PaginateResult"

definition call_filter :: "query_value \<Rightarrow> (ip_group \<Rightarrow> bool) \<Rightarrow> error + ip_group list" where
  "call_filter v p = (case v of ArrayOf xs \<Rightarrow> Inr (filter p xs) | ResultObject _ \<Rightarrow> Inl TypeError)"

record ip_fraud_report =
  suspiciousIPs :: "ip_group list"
  report_timestamp :: int

text \<open>
  \<open>detectIPBasedFraud()\<close>. The \<open>$group\<close> stage is handed to \<open>getLogs\<close> as its options
  argument; an error of \<open>getLogs\<close> leaves through the \<open>catch\<close>, which rethrows, and a
  value that came back would be a result object of \<open>paginate\<close>, on which \<open>filter\<close> is
  called.
\<close>

definition detectIPBasedFraud ::
  "(log_details AuditLog \<Rightarrow> error option) \<Rightarrow> database \<Rightarrow> int \<Rightarrow> error + ip_fraud_report" where
  "detectIPBasedFraud sink db now =
     (let twentyFourHoursAgo = twentyFourHoursBefore now
      in case getLogs (auditLogs db)
                (\<lambda>entry. twentyFourHoursAgo \<le> timestamp entry \<and> success entry = False)
                \<lparr>opt_page = None, opt_limit = None, sort_timestamp = None,
                 dollar_group = Some ()\<rparr> of
           Inl err \<Rightarrow> Inl err
         | Inr ipFraudDetection \<Rightarrow>
             (case call_filter (ResultObject ipFraudDetection)
                     (\<lambda>ip. failedAttempts ip > 10 \<or> length (uniqueUsers ip) > 3) of
                Inl err \<Rightarrow> Inl err
              | Inr suspicious \<Rightarrow>
                  (case AuditLogService_log sink now
                          (log_call None ''IP_FRAUD_DETECTION''
                             (IpFraudDetection (map group_id suspicious) (length suspicious))
                             None) of
                     Inl err \<Rightarrow> Inl err
                   | Inr _ \<Rightarrow> Inr \<lparr>suspiciousIPs = suspicious, report_timestamp = now\<rparr>)))"

section \<open>EventSecurityService: access tokens\<close>

text \<open>
  \<open>JSON.stringify\<close> of the payload \<open>{eventId, userId, timestamp}\<close>. The two ids are
  ObjectIds or plain strings without a character that JSON escapes, so each is written
  between double quotes as it is; the timestamp is a non-negative integer below
  \<open>10^21\<close> and is written in decimal.
\<close>

fun decimal :: "nat \<Rightarrow> string" where
  "decimal n =
     (if n < 10 then [''0123456789'' ! n]
      else decimal (n div 10) @ [''0123456789'' ! (n mod 10)])"

declare decimal.simps [simp del]







section \<open>EventSecurityService: the registration guard\<close>

text \<open>
  The identifiers bound at the top of the module (its four \<open>require\<close> lines and the
  class), and the globals of Node that the module uses. Evaluating an identifier that
  is bound nowhere throws a ReferenceError.
\<close>

definition module_bindings :: "string list" where
  "module_bindings = [''crypto'', ''Event'', ''User'', ''AuditLogService'', ''EventSecurityService'']"

definition node_globals :: "string list" where
  "node_globals = [''require'', ''module'', ''process'', ''console'', ''Date'', ''JSON'', ''Promise'']"

definition resolve_identifier :: "string \<Rightarrow> error + unit" where
  "resolve_identifier name =
     (if name \<in> set module_bindings \<or> name \<in> set node_globals then Inr ()
      else Inl ReferenceError)"

record registration_group =
  group_ip :: "string option"
  registrationCount :: nat
  group_users :: "string list"

text \<open>
  The aggregation pipeline of \<open>detectSuspiciousRegistrations\<close> on the events and users
  collections: the event with the id, one row per participant, joined with the user of
  that id (a participant without a user document drops out), grouped on
  \<open>contactInfo.ipAddress\<close>, keeping the groups of more than five rows.
\<close>

definition participantDetails :: "database \<Rightarrow> string \<Rightarrow> User list" where
  "participantDetails db eventId =
     concat (map (\<lambda>e. concat (map (\<lambda>p. filter (\<lambda>u. uid u = p) (users db)) (participants e)))
               (filter (\<lambda>e. eid e = eventId) (events db)))"

definition registrations_pipeline :: "database \<Rightarrow> string \<Rightarrow> registration_group list" where
  "registrations_pipeline db eventId =
     (let rows = participantDetails db eventId;
          groups =
            map (\<lambda>ip. \<lparr>group_ip = ip,
                        registrationCount = length (filter (\<lambda>u. contactInfo_ipAddress u = ip) rows),
                        group_users = remdups (map uid (filter (\<lambda>u. contactInfo_ipAddress u = ip) rows))\<rparr>)
              (remdups (map contactInfo_ipAddress rows))
      in filter (\<lambda>g. registrationCount g > 5) groups)"

record registration_scan =
  registrations :: "registration_group list"
  potentialFraud :: bool

text \<open>
  \<open>detectSuspiciousRegistrations(eventId)\<close>. Building the argument of \<open>Event.aggregate\<close>
  evaluates \<open>mongoose.Types.ObjectId(eventId)\<close> inside the \<open>try\<close>; the \<open>catch\<close>
  rethrows. The field \<open>registrations\<close> is the property \<open>suspiciousRegistrations\<close> of
  the returned object.
\<close>

definition detectSuspiciousRegistrations :: "database \<Rightarrow> string \<Rightarrow> error + registration_scan" where
  "detectSuspiciousRegistrations db eventId =
     (case resolve_identifier ''mongoose'' of
        Inl err \<Rightarrow> Inl err
      | Inr _ \<Rightarrow>
          (let found = registrations_pipeline db eventId
           in Inr \<lparr>registrations = found, potentialFraud = length found > 0\<rparr>))"

record decision =
  allowed :: bool

record rate_limit = decision +
  message :: "string option"

text \<open>
  \<open>checkRegistrationRateLimit(userId, eventId)\<close>: \<open>Event.countDocuments\<close> counts the
  events created since 24 hours ago that list the user as a participant.
\<close>

definition checkRegistrationRateLimit ::
  "(log_details AuditLog \<Rightarrow> error option) \<Rightarrow> database \<Rightarrow> int \<Rightarrow> string \<Rightarrow> string \<Rightarrow> error + rate_limit" where
  "checkRegistrationRateLimit sink db now user eventId =
     (let twentyFourHoursAgo = twentyFourHoursBefore now;
          recentRegistrations =
            length (filter (\<lambda>e. user \<in> set (participants e) \<and> twentyFourHoursAgo \<le> event_createdAt e)
                      (events db))
      in if recentRegistrations \<ge> 10 then
           (case AuditLogService_log sink now
                   (log_call (Some user) ''REGISTRATION_RATE_LIMIT_EXCEEDED''
                      (RegistrationRateLimitExceeded eventId recentRegistrations) (Some False)) of
              Inl err \<Rightarrow> Inl err
            | Inr _ \<Rightarrow>
                Inr \<lparr>allowed = False,
                     message = Some ''Registration limit exceeded. Please try again later.''\<rparr>)
         else Inr \<lparr>allowed = True, message = None\<rparr>)"

text \<open>
  A JavaScript quotient of a length by the optional \<open>capacity\<close>: dividing by
  \<open>undefined\<close> gives NaN, dividing by zero gives Infinity or (for \<open>0 / 0\<close>) NaN. Every
  comparison with NaN is false.
\<close>

datatype number = Finite rat | Infinity | NaN

definition divide_by_capacity :: "nat \<Rightarrow> nat option \<Rightarrow> number" where
  "divide_by_capacity n c =
     (case c of
        None \<Rightarrow> NaN
      | Some k \<Rightarrow> if k = 0 then (if n = 0 then NaN else Infinity) else Finite (of_nat n / of_nat k))"

definition greater_than :: "number \<Rightarrow> rat \<Rightarrow> bool" where
  "greater_than x y = (case x of Finite q \<Rightarrow> q > y | Infinity \<Rightarrow> True | NaN \<Rightarrow> False)"

record risk_assessment = risk +
  requiresAdditionalVerification :: bool

text \<open>
  \<open>assessRegistrationRisk(userId, eventId)\<close>: \<open>user.createdAt\<close> throws when the user
  is \<open>null\<close>, \<open>event.participants\<close> when the event is.
\<close>

definition assessRegistrationRisk ::
  "(log_details AuditLog \<Rightarrow> error option) \<Rightarrow> database \<Rightarrow> int \<Rightarrow> string \<Rightarrow> string \<Rightarrow> error + risk_assessment" where
  "assessRegistrationRisk sink db now i eventId =
     (case User_findById (users db) i of
        None \<Rightarrow> Inl TypeError
      | Some user \<Rightarrow>
          (case Event_findById (events db) eventId of
             None \<Rightarrow> Inl TypeError
           | Some event \<Rightarrow>
               (let score = (0::rat);
                    age = accountAgeInDays now user;
                    score = (if age < 30 then score + 2 else score);
                    pastEventCount = length (registeredEvents user);
                    score = (if pastEventCount < 3 then score + 1 else score);
                    registrationPercentage =
                      divide_by_capacity (length (participants event)) (capacity event);
                    score = (if greater_than registrationPercentage (9 / 10) then score + 1 else score);
                    level = (if score > 3 then HIGH else if score > 1 then MEDIUM else LOW)
                in case AuditLogService_log sink now
                          (log_call (Some i) ''REGISTRATION_RISK_ASSESSMENT''
                             (RegistrationRiskAssessment eventId score level) None) of
                     Inl err \<Rightarrow> Inl err
                   | Inr _ \<Rightarrow>
                       Inr \<lparr>riskScore = score, riskLevel = level,
                            requiresAdditionalVerification = (level \<noteq> LOW)\<rparr>)))"

record security_check = decision +
  rateLimit :: rate_limit
  riskAssessment :: risk_assessment
  suspiciousRegistrations :: registration_scan

text \<open>
  \<open>performEventSecurityCheck(userId, eventId)\<close>; \<open>securityCheckResult\<close> is the object
  it returns from the results of the three checks. \<open>Promise.all\<close> over the three checks
  rejects with the first rejection, and the \<open>catch\<close> rethrows it. The registration scan
  settles before its first \<open>await\<close> when it throws, ahead of the two checks that wait
  for the database, so its outcome is examined first.
\<close>

definition securityCheckResult :: "rate_limit \<Rightarrow> risk_assessment \<Rightarrow> registration_scan \<Rightarrow> security_check" where
  "securityCheckResult limit assessment scan =
     \<lparr>allowed = (allowed limit \<and> \<not> potentialFraud scan),
      rateLimit = limit, riskAssessment = assessment, suspiciousRegistrations = scan\<rparr>"

definition performEventSecurityCheck ::
  "(log_details AuditLog \<Rightarrow> error option) \<Rightarrow> database \<Rightarrow> int \<Rightarrow> string \<Rightarrow> string \<Rightarrow> error + security_check" where
  "performEventSecurityCheck sink db now user eventId =
     (case detectSuspiciousRegistrations db eventId of
        Inl err \<Rightarrow> Inl err
      | Inr scan \<Rightarrow>
          (case checkRegistrationRateLimit sink db now user eventId of
             Inl err \<Rightarrow> Inl err
           | Inr limit \<Rightarrow>
               (case assessRegistrationRisk sink db now user eventId of
                  Inl err \<Rightarrow> Inl err
                | Inr assessment \<Rightarrow> Inr (securityCheckResult limit assessment scan))))"

section \<open>Concrete inputs\<close>

text \<open>
  The inputs at which the properties below are evaluated. \<open>now0\<close> is an instant in
  November 2023; a day has 86400000 milliseconds.
\<close>

definition now0 :: int where
  "now0 = 1700000000000"

definition account :: "string \<Rightarrow> int \<Rightarrow> User" where
  "account i created =
     \<lparr>uid = i, user_createdAt = created, registeredEvents = [], contactInfo_ipAddress = None\<rparr>"

text \<open>An account created 10 days before \<open>now0\<close>, and one created 100 days before.\<close>

definition young_account :: User where
  "young_account = account ''u1'' (now0 - 10 * 86400000)"

definition old_account :: User where
  "old_account = account ''u2'' (now0 - 100 * 86400000)"

text \<open>
  An audit entry of a user: action, location and user agent of the payload, offset of
  the timestamp from \<open>now0\<close>, source address and success flag.
\<close>

definition audit_entry ::
  "string \<Rightarrow> string \<Rightarrow> string option \<Rightarrow> string option \<Rightarrow> int \<Rightarrow> string option \<Rightarrow> bool
     \<Rightarrow> details AuditLog" where
  "audit_entry i a loc agent offset ip ok =
     \<lparr>user_id = Some i, username = None, email = None, role = None, action = Some a,
      details = Some \<lparr>location = loc, userAgent = agent\<rparr>, timestamp = now0 + offset,
      ipAddress = ip, log_userAgent = None, success = ok\<rparr>"

text \<open>One successful login attempt from one place on one device, an hour ago.\<close>

definition one_login :: "details AuditLog list" where
  "one_login =
     [audit_entry ''u1'' ''LOGIN_ATTEMPT'' (Some ''Berlin'') (Some ''Firefox'') (- 3600000) None True]"

text \<open>
  Three successful login attempts ten seconds apart: two gaps between consecutive
  logins, both shorter than a minute.
\<close>

definition three_logins :: "details AuditLog list" where
  "three_logins =
     [audit_entry ''u2'' ''LOGIN_ATTEMPT'' None None (- 20000) None True,
      audit_entry ''u2'' ''LOGIN_ATTEMPT'' None None (- 10000) None True,
      audit_entry ''u2'' ''LOGIN_ATTEMPT'' None None 0 None True]"

text \<open>
  A database for the activity detector. The account \<open>u2\<close> has, within the last 24
  hours, one entry from Berlin on Firefox, one from Paris on Chrome and one whose payload
  has neither location nor user agent; an entry two days old and an entry of another
  user lie outside the query.
\<close>

definition activity_db :: database where
  "activity_db =
     \<lparr>auditLogs =
        [audit_entry ''u2'' ''API_ACCESS'' None None (- 10800000) None True,
         audit_entry ''u2'' ''LOGIN_SUCCESS'' (Some ''Berlin'') (Some ''Firefox'') (- 3600000) None True,
         audit_entry ''u2'' ''API_ACCESS'' (Some ''Rome'') (Some ''Safari'') (- 172800000) None True,
         audit_entry ''u1'' ''API_ACCESS'' (Some ''Oslo'') (Some ''Edge'') (- 60000) None True,
         audit_entry ''u2'' ''API_ACCESS'' (Some ''Paris'') (Some ''Chrome'') (- 7200000) None True],
      users = [young_account, old_account],
      events = []\<rparr>"

text \<open>
  The three entries of \<open>u2\<close> in \<open>activity_db\<close> that lie within the last 24 hours, the
  latest first.
\<close>

definition activity_entries :: "details AuditLog list" where
  "activity_entries =
     [audit_entry ''u2'' ''LOGIN_SUCCESS'' (Some ''Berlin'') (Some ''Firefox'') (- 3600000) None True,
      audit_entry ''u2'' ''API_ACCESS'' (Some ''Paris'') (Some ''Chrome'') (- 7200000) None True,
      audit_entry ''u2'' ''API_ACCESS'' None None (- 10800000) None True]"

text \<open>Three entries of the same account from three places on three devices.\<close>

definition three_devices_entries :: "details AuditLog list" where
  "three_devices_entries =
     [audit_entry ''u2'' ''API_ACCESS'' (Some ''Berlin'') (Some ''Firefox'') (- 3600000) None True,
      audit_entry ''u2'' ''API_ACCESS'' (Some ''Paris'') (Some ''Chrome'') (- 7200000) None True,
      audit_entry ''u2'' ''API_ACCESS'' (Some ''Rome'') (Some ''Safari'') (- 10800000) None True]"

definition three_devices_db :: database where
  "three_devices_db =
     \<lparr>auditLogs = three_devices_entries, users = [old_account], events = []\<rparr>"

text \<open>An audit store that refuses every write, and one that accepts every write.\<close>

definition broken_sink :: "log_details AuditLog \<Rightarrow> error option" where
  "broken_sink doc = Some StoreError"

definition working_sink :: "log_details AuditLog \<Rightarrow> error option" where
  "working_sink doc = None"

text \<open>
  Twelve failed login attempts from the address 10.0.0.5 within the last 12 minutes,
  alternating between two users.
\<close>

definition ip_fraud_db :: database where
  "ip_fraud_db =
     \<lparr>auditLogs =
        map (\<lambda>k. audit_entry (if even k then ''u1'' else ''u2'') ''LOGIN_ATTEMPT'' None None
                    (- (int k * 60000)) (Some ''10.0.0.5'') False)
          [0..<12],
      users = [young_account, old_account],
      events = []\<rparr>"

text \<open>
  A database for the registration guard: the event \<open>e0\<close> with room for 100 and no
  participant yet, and ten events created an hour ago in which the account \<open>u2\<close>
  takes part. The account \<open>u1\<close> takes part in none.
\<close>

definition guard_db :: database where
  "guard_db =
     \<lparr>auditLogs = [],
      users = [young_account, old_account],
      events =
        \<lparr>eid = ''e0'', participants = [], capacity = Some 100,
         event_createdAt = now0 - 5 * 86400000\<rparr> #
        map (\<lambda>k. \<lparr>eid = ''r'' @ decimal k, participants = [''u2''], capacity = Some 100,
                   event_createdAt = now0 - 3600000\<rparr>)
          [0..<10]\<rparr>"

section \<open>Properties of the risk scorer\<close>

subsection \<open>The score as a sum of its signals\<close>

lemma score_sum:
  "calculateRiskScore now (Some u) activities =
     Inr (min (max ((if accountAgeInDays now u < 30 then 3 else 0)
        + (if accountAgeInDays now u < 60 then 2 else 0)
        + min (of_nat (length (failedLogins activities)) * (1 / 2)) 2
        + (if card (uniqueLoginLocations activities) > 3 then 1 else 0)
        + (if card (uniqueDevices activities) > 3 then 1 else 0)
        + (if length (irregularTimePatterns (timeDifferences (loginTimestamps activities))) > 2
           then 1 else 0)) 0) 10)"
  unfolding calculateRiskScore_def option.case
  by (simp only: Let_def) (cases "accountAgeInDays now u < 30";
      cases "accountAgeInDays now u < 60";
      cases "card (uniqueLoginLocations activities) > 3";
      cases "card (uniqueDevices activities) > 3";
      cases "length (irregularTimePatterns (timeDifferences (loginTimestamps activities))) > 2";
      simp only: if_True if_False add_0 add_0_right add.assoc)

lemma clamp_sum:
  fixes m :: rat
  assumes "0 \<le> m" "m \<le> 2"
  shows "min (max ((if a then 3 else 0) + (if b then 2 else 0) + m + (if c then 1 else 0)
            + (if d then 1 else 0) + (if e then 1 else 0)) 0) 10
         = (if a then 3 else 0) + (if b then 2 else 0) + m + (if c then 1 else 0)
            + (if d then 1 else 0) + (if e then 1 else 0)"
  using assms by (cases a; cases b; cases c; cases d; cases e; simp)

text \<open>The sum of the signals never leaves the range, so the final clamp changes nothing.\<close>

lemma score_unclamped:
  "calculateRiskScore now (Some u) activities =
     Inr ((if accountAgeInDays now u < 30 then 3 else 0)
        + (if accountAgeInDays now u < 60 then 2 else 0)
        + min (of_nat (length (failedLogins activities)) * (1 / 2)) 2
        + (if card (uniqueLoginLocations activities) > 3 then 1 else 0)
        + (if card (uniqueDevices activities) > 3 then 1 else 0)
        + (if length (irregularTimePatterns (timeDifferences (loginTimestamps activities))) > 2
           then 1 else 0))"
proof -
  have m: "0 \<le> min (rat_of_nat (length (failedLogins activities)) * (1 / 2)) 2"
          "min (rat_of_nat (length (failedLogins activities)) * (1 / 2)) 2 \<le> 2"
    by simp_all
  show ?thesis
    unfolding score_sum by (simp only: clamp_sum[OF m])
qed

lemma score_shape:
  "\<exists>r. calculateRiskScore now (Some u) activities = Inr (min (max r 0) 10)"
  unfolding score_sum by (rule exI, rule refl)

lemma score_bounds:
  "\<exists>s. calculateRiskScore now (Some u) activities = Inr s \<and> 0 \<le> s \<and> s \<le> 10"
proof -
  obtain r where "calculateRiskScore now (Some u) activities = Inr (min (max r 0) 10)"
    using score_shape by blast
  moreover have "0 \<le> min (max r 0) 10 \<and> min (max r 0) 10 \<le> 10"
    by simp
  ultimately show ?thesis by blast
qed

lemma level_mono:
  "s1 \<le> s2 \<Longrightarrow> level_rank (determineRiskLevel s1) \<le> level_rank (determineRiskLevel s2)"
  by (simp add: determineRiskLevel_def)

lemma level_thresholds:
  "(determineRiskLevel s = LOW \<longleftrightarrow> s \<le> 2) \<and>
   (determineRiskLevel s = MEDIUM \<longleftrightarrow> 2 < s \<and> s \<le> 5) \<and>
   (determineRiskLevel s = HIGH \<longleftrightarrow> 5 < s \<and> s \<le> 7) \<and>
   (determineRiskLevel s = CRITICAL \<longleftrightarrow> 7 < s)"
  by (auto simp add: determineRiskLevel_def)

subsection \<open>Score range and level thresholds\<close>

text \<open>
  Claim C1. For every user and every activity list \<open>calculateRiskScore\<close> returns a score,
  and the score lies between 0 and 10. \<open>determineRiskLevel\<close> is monotonic in the score
  (a larger score never gives a lower level) and its levels are cut exactly at the
  thresholds: LOW up to 2, MEDIUM up to 5, HIGH up to 7, CRITICAL above.
\<close>

theorem risk_score_range_and_level_thresholds:
  "(\<exists>s. calculateRiskScore now (Some u) activities = Inr s \<and> 0 \<le> s \<and> s \<le> 10) \<and>
   (s1 \<le> s2 \<longrightarrow> level_rank (determineRiskLevel s1) \<le> level_rank (determineRiskLevel s2)) \<and>
   (determineRiskLevel s = LOW \<longleftrightarrow> s \<le> 2) \<and>
   (determineRiskLevel s = MEDIUM \<longleftrightarrow> 2 < s \<and> s \<le> 5) \<and>
   (determineRiskLevel s = HIGH \<longleftrightarrow> 5 < s \<and> s \<le> 7) \<and>
   (determineRiskLevel s = CRITICAL \<longleftrightarrow> 7 < s)"
  using score_bounds level_mono level_thresholds by blast

theorem risk_score_range_and_level_thresholds_witness:
  "(2::rat) \<le> 6 \<and> level_rank (determineRiskLevel 2) \<le> level_rank (determineRiskLevel 6) \<and>
   determineRiskLevel 2 = LOW \<and> determineRiskLevel 6 = HIGH"
proof -
  have h: "(2::rat) \<le> 6" by simp
  have "level_rank (determineRiskLevel 2) \<le> level_rank (determineRiskLevel 6)"
    using h risk_score_range_and_level_thresholds [of _ _ _ 2 6] by blast
  then show ?thesis using h by (simp add: determineRiskLevel_def)
qed

subsection \<open>The time signal\<close>

lemma length_consecutive_gaps: "length (consecutive_gaps ts) = length ts - 1"
  by (induction ts rule: consecutive_gaps.induct) auto

lemma nth_consecutive_gaps:
  "Suc j < length ts \<Longrightarrow> consecutive_gaps ts ! j = \<bar>ts ! Suc j - ts ! j\<bar>"
proof (induction ts arbitrary: j rule: consecutive_gaps.induct)
  case (1 a b ts)
  then show ?case by (cases j) auto
qed auto

text \<open>
  \<open>timeDifferences\<close> is the list of gaps with one more entry in front: the 0 that
  stands at index 0.
\<close>

lemma timeDifferences_Cons: "timeDifferences (t # ts) = 0 # consecutive_gaps (t # ts)"
proof (rule nth_equalityI)
  show "length (timeDifferences (t # ts)) = length (0 # consecutive_gaps (t # ts))"
    by (simp add: timeDifferences_def length_consecutive_gaps)
next
  fix i assume "i < length (timeDifferences (t # ts))"
  then have i: "i < Suc (length ts)" by (simp add: timeDifferences_def)
  show "timeDifferences (t # ts) ! i = (0 # consecutive_gaps (t # ts)) ! i"
  proof (cases i)
    case 0
    then show ?thesis using i unfolding timeDifferences_def by (simp del: upt_Suc add: upt_rec)
  next
    case (Suc j)
    then have "Suc j < length (t # ts)" using i by simp
    from nth_consecutive_gaps[OF this] Suc i show ?thesis
      unfolding timeDifferences_def by (simp del: upt_Suc)
  qed
qed

lemma timeDifferences_Nil: "timeDifferences [] = []"
  by (simp add: timeDifferences_def)

lemma irregular_count:
  "length (irregularTimePatterns (timeDifferences ts)) =
     (if ts = [] then 0 else 1 + length (irregularTimePatterns (consecutive_gaps ts)))"
  by (cases ts) (simp_all add: timeDifferences_Nil timeDifferences_Cons irregularTimePatterns_def)

text \<open>
  The entry at index 0 is below 60000 and is counted with the gaps, so the signal fires
  from two irregular gaps on.
\<close>

lemma irregular_signal_iff:
  "length (irregularTimePatterns (timeDifferences ts)) > 2 \<longleftrightarrow>
     length (irregularTimePatterns (consecutive_gaps ts)) \<ge> 2"
  unfolding irregular_count by (cases ts) (auto simp: irregularTimePatterns_def)

lemma irregular_gap_iff:
  "g \<in> set (irregularTimePatterns gs) \<longleftrightarrow> g \<in> set gs \<and> (g < 60000 \<or> g > 86400000)"
  by (simp add: irregularTimePatterns_def)

subsection \<open>Evaluation at the concrete inputs\<close>

lemma young_age: "accountAgeInDays now0 young_account = 10"
  by (simp add: accountAgeInDays_def young_account_def account_def now0_def)

lemma old_age: "accountAgeInDays now0 old_account = 100"
  by (simp add: accountAgeInDays_def old_account_def account_def now0_def)

lemma three_logins_ts: "loginTimestamps three_logins = [now0 - 20000, now0 - 10000, now0]"
  by (simp add: loginTimestamps_def three_logins_def audit_entry_def)

lemma three_logins_gaps: "consecutive_gaps (loginTimestamps three_logins) = [10000, 10000]"
  by (simp add: three_logins_ts)

lemma three_logins_diffs: "timeDifferences (loginTimestamps three_logins) = [0, 10000, 10000]"
  by (simp add: three_logins_ts timeDifferences_Cons)

lemma three_logins_score: "calculateRiskScore now0 (Some old_account) three_logins = Inr 1"
  unfolding score_unclamped three_logins_diffs old_age
  by (simp add: irregularTimePatterns_def failedLogins_def uniqueLoginLocations_def
        uniqueDevices_def three_logins_def audit_entry_def details_location_def
        details_userAgent_def Boolean_def)

lemma one_login_facts:
  "failedLogins one_login = []"
  "uniqueLoginLocations one_login = {Some ''Berlin''}"
  "uniqueDevices one_login = {Some ''Firefox''}"
  "loginTimestamps one_login = [now0 - 3600000]"
  by (simp_all add: failedLogins_def uniqueLoginLocations_def uniqueDevices_def
        loginTimestamps_def one_login_def audit_entry_def details_location_def
        details_userAgent_def Boolean_def)

subsection \<open>Stacking of the two account-age signals\<close>

lemma quiet_activity_score:
  assumes "failedLogins activities = []"
    and "card (uniqueLoginLocations activities) \<le> 3"
    and "card (uniqueDevices activities) \<le> 3"
    and "irregularTimePatterns (consecutive_gaps (loginTimestamps activities)) = []"
  shows "calculateRiskScore now (Some u) activities =
           Inr ((if accountAgeInDays now u < 30 then 3 else 0)
              + (if accountAgeInDays now u < 60 then 2 else 0))"
proof -
  have "\<not> length (irregularTimePatterns (timeDifferences (loginTimestamps activities))) > 2"
    unfolding irregular_signal_iff using assms(4) by simp
  then show ?thesis
    unfolding score_unclamped using assms(1-3) by simp
qed

lemma age_shift:
  assumes "accountAgeInDays now u < 30" and "60 \<le> accountAgeInDays now v"
  shows "\<exists>a. calculateRiskScore now (Some v) activities = Inr a \<and>
              calculateRiskScore now (Some u) activities = Inr (a + 3 + 2)"
  unfolding score_unclamped using assms by simp

text \<open>
  Claim C6. The two account-age signals stack. On the same activity an account younger
  than 30 days scores exactly 3 + 2 more than an account of 60 days or more; and an
  account younger than 30 days with no failed login, at most 3 login locations, at most
  3 devices and no irregular gap between consecutive logins has score exactly 5, which
  is level MEDIUM.
\<close>

theorem account_age_signals_stack:
  assumes "accountAgeInDays now u < 30"
  shows "(60 \<le> accountAgeInDays now v \<longrightarrow>
            (\<exists>a. calculateRiskScore now (Some v) activities = Inr a \<and>
                 calculateRiskScore now (Some u) activities = Inr (a + 3 + 2))) \<and>
         (failedLogins activities = [] \<and>
          card (uniqueLoginLocations activities) \<le> 3 \<and>
          card (uniqueDevices activities) \<le> 3 \<and>
          irregularTimePatterns (consecutive_gaps (loginTimestamps activities)) = [] \<longrightarrow>
            calculateRiskScore now (Some u) activities = Inr 5 \<and>
            determineRiskLevel 5 = MEDIUM)"
proof (intro conjI impI)
  assume "60 \<le> accountAgeInDays now v"
  with assms show "\<exists>a. calculateRiskScore now (Some v) activities = Inr a \<and>
                       calculateRiskScore now (Some u) activities = Inr (a + 3 + 2)"
    by (rule age_shift)
next
  assume quiet: "failedLogins activities = [] \<and>
          card (uniqueLoginLocations activities) \<le> 3 \<and>
          card (uniqueDevices activities) \<le> 3 \<and>
          irregularTimePatterns (consecutive_gaps (loginTimestamps activities)) = []"
  then show "calculateRiskScore now (Some u) activities = Inr 5"
    using assms by (simp add: quiet_activity_score)
  show "determineRiskLevel 5 = MEDIUM"
    by (simp add: determineRiskLevel_def)
qed

text \<open>
  The scenario of the claim: the account created 10 days ago with one successful login
  from one place on one device, beside the account created 100 days ago.
\<close>

theorem account_age_signals_stack_witness:
  "accountAgeInDays now0 young_account < 30 \<and>
   60 \<le> accountAgeInDays now0 old_account \<and>
   failedLogins one_login = [] \<and>
   card (uniqueLoginLocations one_login) = 1 \<and>
   card (uniqueDevices one_login) = 1 \<and>
   irregularTimePatterns (consecutive_gaps (loginTimestamps one_login)) = [] \<and>
   calculateRiskScore now0 (Some young_account) one_login = Inr 5 \<and>
   determineRiskLevel 5 = MEDIUM \<and>
   calculateRiskScore now0 (Some old_account) one_login = Inr 0"
proof -
  have young: "accountAgeInDays now0 young_account < 30"
    by (simp add: young_age)
  have old: "60 \<le> accountAgeInDays now0 old_account"
    by (simp add: old_age)
  have quiet: "failedLogins one_login = [] \<and>
      card (uniqueLoginLocations one_login) \<le> 3 \<and>
      card (uniqueDevices one_login) \<le> 3 \<and>
      irregularTimePatterns (consecutive_gaps (loginTimestamps one_login)) = []"
    by (simp add: one_login_facts irregularTimePatterns_def)
  note main = account_age_signals_stack [OF young, of old_account one_login]
  from main quiet have five: "calculateRiskScore now0 (Some young_account) one_login = Inr 5"
    and level: "determineRiskLevel 5 = MEDIUM"
    by blast+
  from main old obtain a where
    "calculateRiskScore now0 (Some old_account) one_login = Inr a"
    "calculateRiskScore now0 (Some young_account) one_login = Inr (a + 3 + 2)"
    by blast
  with five have zero: "calculateRiskScore now0 (Some old_account) one_login = Inr 0"
    by simp
  show ?thesis
    using young old five level zero by (simp add: one_login_facts irregularTimePatterns_def)
qed

subsection \<open>The time signal at two irregular gaps\<close>

text \<open>
  Claim C7. A gap between consecutive login timestamps counts as irregular exactly when
  it is below 60 seconds or above 24 hours, and the claim has the signal add 1 only for
  more than 2 such gaps. Evaluated at three logins ten seconds apart on the account
  created 100 days ago: there are exactly 2 gaps, both irregular, the filtered list has
  3 entries because the 0 at index 0 is counted, and the score is 1.
\<close>

theorem time_signal_fires_at_two_irregular_gaps:
  "consecutive_gaps (loginTimestamps three_logins) = [10000, 10000] \<and>
   length (irregularTimePatterns (consecutive_gaps (loginTimestamps three_logins))) = 2 \<and>
   irregularTimePatterns (timeDifferences (loginTimestamps three_logins)) = [0, 10000, 10000] \<and>
   calculateRiskScore now0 (Some old_account) three_logins = Inr 1 \<and>
   calculateRiskScore now0 (Some old_account) [] = Inr 0"
proof -
  have "calculateRiskScore now0 (Some old_account) [] = Inr 0"
    unfolding score_unclamped old_age
    by (simp add: irregularTimePatterns_def failedLogins_def uniqueLoginLocations_def
          uniqueDevices_def loginTimestamps_def timeDifferences_Nil)
  then show ?thesis
    by (simp add: three_logins_gaps three_logins_diffs three_logins_score
          irregularTimePatterns_def)
qed

section \<open>Properties of the audit log\<close>

lemma log_never_throws: "\<exists>r. AuditLogService_log sink now options = Inr r"
  by (simp add: AuditLogService_log_def split: sum.split)

lemma log_swallows:
  "log_body sink now options = Inl err \<Longrightarrow> AuditLogService_log sink now options = Inr None"
  by (simp add: AuditLogService_log_def)

text \<open>A caller that awaits \<open>log\<close> and drops its value goes on with what follows.\<close>

lemma log_then:
  "(case AuditLogService_log sink now options of Inl err \<Rightarrow> Inl err | Inr w \<Rightarrow> k) = k"
proof -
  obtain r where "AuditLogService_log sink now options = Inr r"
    using log_never_throws by blast
  then show ?thesis by simp
qed

lemma rate_limit_value:
  "checkRegistrationRateLimit sink db now user eventId =
     (if length (filter (\<lambda>e. user \<in> set (participants e) \<and>
                              twentyFourHoursBefore now \<le> event_createdAt e) (events db)) \<ge> 10
      then Inr \<lparr>allowed = False,
                message = Some ''Registration limit exceeded. Please try again later.''\<rparr>
      else Inr \<lparr>allowed = True, message = None\<rparr>)"
  by (simp only: checkRegistrationRateLimit_def log_then Let_def)

lemma rate_limit_sink_independent:
  "checkRegistrationRateLimit sink db now user eventId =
   checkRegistrationRateLimit sink' db now user eventId"
  by (simp only: rate_limit_value)

lemma assess_sink_independent:
  "assessRegistrationRisk sink db now i eventId = assessRegistrationRisk sink' db now i eventId"
  by (simp only: assessRegistrationRisk_def log_then)

lemma broken_sink_fails:
  "log_body broken_sink now0
     (log_call (Some ''u2'') ''LOGIN_ATTEMPT'' (IpFraudDetection [] 0) None) = Inl StoreError"
  by (simp add: log_body_def log_call_def save_def schema_valid_def action_enum_def
        broken_sink_def)

text \<open>
  The actions that the detectors write are not in the schema's enumeration, so these
  entries fail validation in \<open>save\<close> whatever the store does.
\<close>

lemma detector_entries_invalid:
  "a \<in> {''ADVANCED_RISK_ASSESSMENT'', ''IP_FRAUD_DETECTION'',
         ''REGISTRATION_RATE_LIMIT_EXCEEDED'', ''REGISTRATION_RISK_ASSESSMENT''} \<Longrightarrow>
   log_body sink now (log_call u a d s) = Inl ValidationError"
  by (auto simp add: log_body_def log_call_def save_def schema_valid_def action_enum_def)

section \<open>Properties of the activity detector\<close>

lemma AuditLog_has_no_paginate: "\<not> applies_paginate AuditLogModel"
  by (simp add: applies_paginate_def)

lemma getLogs_throws: "getLogs collection filters options = Inl TypeError"
  by (simp add: getLogs_def AuditLog_has_no_paginate)

lemma userActivityQuery_throws: "userActivityQuery db now i = Inl TypeError"
  by (simp add: userActivityQuery_def ObjectId_call_def)

text \<open>
  The detector never reaches the score or the flags: its query throws on every input.
\<close>

lemma detect_throws: "detectSuspiciousUserActivity sink db now i = Inl TypeError"
  by (simp add: detectSuspiciousUserActivity_def userActivityQuery_throws)

lemma find_old_account:
  "User_findById (users activity_db) ''u2'' = Some old_account"
  "User_findById (users three_devices_db) ''u2'' = Some old_account"
  by (simp_all add: User_findById_def activity_db_def three_devices_db_def
        old_account_def young_account_def account_def)

text \<open>
  The pages that \<open>paginate\<close> would give for the filter of the detector, were the
  method present on the model.
\<close>

lemma activity_db_page:
  "docs (paginate (auditLogs activity_db) (activityFilter now0 ''u2'') 1 50 (- 1)) =
     activity_entries"
  by (simp add: paginate_def activityFilter_def Let_def activity_db_def activity_entries_def
        audit_entry_def twentyFourHoursBefore_def now0_def)

lemma three_devices_db_page:
  "docs (paginate (auditLogs three_devices_db) (activityFilter now0 ''u2'') 1 50 (- 1)) =
     three_devices_entries"
  by (simp add: paginate_def activityFilter_def Let_def three_devices_db_def
        three_devices_entries_def audit_entry_def twentyFourHoursBefore_def now0_def)

lemma three_devices_sets:
  "set (map details_userAgent three_devices_entries) =
     {Some ''Firefox'', Some ''Chrome'', Some ''Safari''}"
  "set (map details_location three_devices_entries) =
     {Some ''Berlin'', Some ''Paris'', Some ''Rome''}"
  "uniqueDevices three_devices_entries = {Some ''Firefox'', Some ''Chrome'', Some ''Safari''}"
  "uniqueLoginLocations three_devices_entries = {Some ''Berlin'', Some ''Paris'', Some ''Rome''}"
  by (simp_all add: three_devices_entries_def audit_entry_def details_userAgent_def
        details_location_def uniqueDevices_def uniqueLoginLocations_def Boolean_def)

lemma three_devices_score:
  "calculateRiskScore now0 (Some old_account) three_devices_entries = Inr 0"
proof -
  have quiet: "failedLogins three_devices_entries = []"
    "loginTimestamps three_devices_entries = []"
    by (simp_all add: failedLogins_def loginTimestamps_def three_devices_entries_def
          audit_entry_def)
  show ?thesis
    unfolding score_unclamped three_devices_sets quiet old_age
    by (simp add: timeDifferences_Nil irregularTimePatterns_def)
qed

lemma activity_sets:
  "set (map details_userAgent activity_entries) = {Some ''Firefox'', Some ''Chrome'', None}"
  "set (map details_location activity_entries) = {Some ''Berlin'', Some ''Paris'', None}"
  "uniqueDevices activity_entries = {Some ''Firefox'', Some ''Chrome''}"
  "uniqueLoginLocations activity_entries = {Some ''Berlin'', Some ''Paris''}"
  by (simp_all add: activity_entries_def audit_entry_def details_userAgent_def
        details_location_def uniqueDevices_def uniqueLoginLocations_def Boolean_def)

subsection \<open>Thresholds of the contextual flags and of the scorer\<close>

text \<open>
  Claim C8. The claim has \<open>detectSuspiciousUserActivity\<close> compute its two contextual
  flags on the events of the trailing 24 hours with the threshold 2, beside the
  threshold 3 of the scorer's own device and location signals. Evaluated at the account
  \<open>u2\<close> with three entries from three places on three devices: the filter as written
  selects the three entries, the flag expressions as written hold on them (3 exceeds 2),
  neither signal of the scorer fires (3 does not exceed 3; the score is 0), and the
  detector throws a TypeError and returns neither flag nor score.
\<close>

theorem activity_detector_throws_at_three_devices:
  "User_findById (users three_devices_db) ''u2'' = Some old_account \<and>
   docs (paginate (auditLogs three_devices_db) (activityFilter now0 ''u2'') 1 50 (- 1)) =
     three_devices_entries \<and>
   card (set (map details_userAgent three_devices_entries)) > 2 \<and>
   card (set (map details_location three_devices_entries)) > 2 \<and>
   \<not> card (uniqueDevices three_devices_entries) > 3 \<and>
   \<not> card (uniqueLoginLocations three_devices_entries) > 3 \<and>
   calculateRiskScore now0 (Some old_account) three_devices_entries = Inr 0 \<and>
   detectSuspiciousUserActivity working_sink three_devices_db now0 ''u2'' = Inl TypeError"
proof -
  have "card (set (map details_userAgent three_devices_entries)) > 2"
    "card (set (map details_location three_devices_entries)) > 2"
    "\<not> card (uniqueDevices three_devices_entries) > 3"
    "\<not> card (uniqueLoginLocations three_devices_entries) > 3"
    unfolding three_devices_sets by simp_all
  then show ?thesis
    by (intro conjI find_old_account(2) three_devices_db_page three_devices_score
          detect_throws)
qed

subsection \<open>Missing values in the contextual sets\<close>

text \<open>
  Claim C10. The claim has the contextual sets built without a filter, so that an event
  without user agent (or location) adds the value \<open>undefined\<close> as one element, which the
  scorer's sets leave out, and the flag \<open>multipleDevices\<close> come out true for two real
  user agents and one event without. Evaluated at the account \<open>u2\<close> with one entry on
  Firefox in Berlin, one on Chrome in Paris and one with neither: the filter as written
  selects the three entries, the sets as written have three elements each, \<open>undefined\<close>
  among them, so both flag expressions hold, the scorer's sets have the two real values
  each, and the detector throws a TypeError and returns no flag.
\<close>

theorem activity_detector_throws_at_missing_user_agent:
  "User_findById (users activity_db) ''u2'' = Some old_account \<and>
   docs (paginate (auditLogs activity_db) (activityFilter now0 ''u2'') 1 50 (- 1)) =
     activity_entries \<and>
   set (map details_userAgent activity_entries) = {Some ''Firefox'', Some ''Chrome'', None} \<and>
   card (set (map details_userAgent activity_entries)) > 2 \<and>
   uniqueDevices activity_entries = {Some ''Firefox'', Some ''Chrome''} \<and>
   card (uniqueDevices activity_entries) = 2 \<and>
   set (map details_location activity_entries) = {Some ''Berlin'', Some ''Paris'', None} \<and>
   card (set (map details_location activity_entries)) > 2 \<and>
   uniqueLoginLocations activity_entries = {Some ''Berlin'', Some ''Paris''} \<and>
   detectSuspiciousUserActivity working_sink activity_db now0 ''u2'' = Inl TypeError"
proof -
  have "card (set (map details_userAgent activity_entries)) > 2"
    "card (uniqueDevices activity_entries) = 2"
    "card (set (map details_location activity_entries)) > 2"
    unfolding activity_sets by simp_all
  then show ?thesis
    by (intro conjI find_old_account(1) activity_db_page activity_sets detect_throws)
qed

section \<open>Properties of the IP detector and of the registration guard\<close>

subsection \<open>detectIPBasedFraud\<close>

text \<open>
  \<open>getLogs\<close> does not look at the \<open>$group\<close> property: with or without it the outcome
  is the same.
\<close>

lemma getLogs_ignores_group:
  "getLogs collection filters (options\<lparr>dollar_group := g\<rparr>) = getLogs collection filters options"
  by (simp add: getLogs_def)

text \<open>
  \<open>getLogs\<close> throws, so the detector does; and on a result object of \<open>paginate\<close> the
  call of \<open>filter\<close> would throw as well.
\<close>

lemma result_object_has_no_filter: "call_filter (ResultObject page) p = Inl TypeError"
  by (simp add: call_filter_def)

lemma detectIPBasedFraud_throws: "detectIPBasedFraud sink db now = Inl TypeError"
  by (simp add: detectIPBasedFraud_def getLogs_throws)

lemma ip_fraud_db_failed:
  "filter (\<lambda>e. twentyFourHoursBefore now0 \<le> timestamp e \<and> success e = False)
     (auditLogs ip_fraud_db) = auditLogs ip_fraud_db"
  by (simp add: ip_fraud_db_def audit_entry_def twentyFourHoursBefore_def now0_def upt_rec)

lemma ip_fraud_db_groups:
  "map (\<lambda>g. (group_id g, failedAttempts g, uniqueUsers g)) (group_stage (auditLogs ip_fraud_db)) =
     [(Some ''10.0.0.5'', 12, [Some ''u1'', Some ''u2''])]"
  by (simp add: group_stage_def ip_fraud_db_def audit_entry_def upt_rec)

text \<open>
  Claim C2. The claim has an address flagged exactly when its failed attempts of the
  last 24 hours number more than 10 or come from more than 3 users; its scenario is the
  address 10.0.0.5 with 12 failed logins of 2 users. Evaluated there: all twelve entries
  are failed entries of the last 24 hours, the \<open>$group\<close> stage as written would give one
  group with 12 attempts and 2 users, which the filter as written keeps, and
  \<open>detectIPBasedFraud\<close> throws a TypeError and reports nothing.
\<close>

theorem ip_fraud_detection_throws_on_scenario:
  "filter (\<lambda>e. twentyFourHoursBefore now0 \<le> timestamp e \<and> success e = False)
     (auditLogs ip_fraud_db) = auditLogs ip_fraud_db \<and>
   map (\<lambda>g. (group_id g, failedAttempts g, uniqueUsers g)) (group_stage (auditLogs ip_fraud_db)) =
     [(Some ''10.0.0.5'', 12, [Some ''u1'', Some ''u2''])] \<and>
   map group_id
     (filter (\<lambda>ip. failedAttempts ip > 10 \<or> length (uniqueUsers ip) > 3)
        (group_stage (auditLogs ip_fraud_db))) = [Some ''10.0.0.5''] \<and>
   detectIPBasedFraud working_sink ip_fraud_db now0 = Inl TypeError"
proof -
  have "map group_id
     (filter (\<lambda>ip. failedAttempts ip > 10 \<or> length (uniqueUsers ip) > 3)
        (group_stage (auditLogs ip_fraud_db))) = [Some ''10.0.0.5'']"
    by (simp add: group_stage_def ip_fraud_db_def audit_entry_def upt_rec)
  then show ?thesis
    using ip_fraud_db_failed ip_fraud_db_groups detectIPBasedFraud_throws by blast
qed

subsection \<open>The registration guard\<close>

lemma mongoose_unbound: "resolve_identifier ''mongoose'' = Inl ReferenceError"
  by (simp add: resolve_identifier_def module_bindings_def node_globals_def)

lemma scan_throws: "detectSuspiciousRegistrations db eventId = Inl ReferenceError"
  by (simp add: detectSuspiciousRegistrations_def mongoose_unbound)

text \<open>
  The object that the guard builds from the results of its three checks is as the
  claims describe it: the risk assessment has no part in \<open>allowed\<close>.
\<close>

lemma securityCheckResult_allowed:
  "allowed (securityCheckResult limit assessment scan) = (allowed limit \<and> \<not> potentialFraud scan)"
  by (simp add: securityCheckResult_def)

text \<open>
  Claim C3. The claim has the guard decide \<open>allowed = rateLimitOk AND NOT suspicious\<close>
  for every subject and resource. For every database, audit store, instant, subject and
  resource: the registration scan throws a ReferenceError, because \<open>mongoose\<close> is not
  bound in the module, and so does \<open>performEventSecurityCheck\<close>; no decision is returned.
\<close>

theorem security_check_always_throws:
  "detectSuspiciousRegistrations db eventId = Inl ReferenceError \<and>
   performEventSecurityCheck sink db now user eventId = Inl ReferenceError"
  by (simp add: performEventSecurityCheck_def scan_throws)

lemma assess_verification:
  assumes "assessRegistrationRisk sink db now i eventId = Inr r"
  shows "requiresAdditionalVerification r = (riskLevel r \<noteq> LOW) \<and> riskLevel r \<noteq> CRITICAL"
  using assms
  by (simp add: assessRegistrationRisk_def log_then Let_def split: option.splits if_splits) auto

lemma guard_db_find:
  "User_findById (users guard_db) ''u1'' = Some young_account"
  "User_findById (users guard_db) ''u2'' = Some old_account"
  "Event_findById (events guard_db) ''e0'' =
     Some \<lparr>eid = ''e0'', participants = [], capacity = Some 100,
           event_createdAt = now0 - 5 * 86400000\<rparr>"
  by (simp_all add: User_findById_def Event_findById_def guard_db_def young_account_def
        old_account_def account_def)

lemma guard_db_counts:
  "length (filter (\<lambda>e. ''u2'' \<in> set (participants e) \<and>
              twentyFourHoursBefore now0 \<le> event_createdAt e) (events guard_db)) = 10"
  "length (filter (\<lambda>e. ''u1'' \<in> set (participants e) \<and>
              twentyFourHoursBefore now0 \<le> event_createdAt e) (events guard_db)) = 0"
  by (simp_all add: guard_db_def twentyFourHoursBefore_def now0_def upt_rec)

lemma guard_db_pipeline: "registrations_pipeline guard_db ''e0'' = []"
  by (simp add: registrations_pipeline_def participantDetails_def guard_db_def upt_rec)

lemma guard_db_assessment:
  "assessRegistrationRisk working_sink guard_db now0 ''u1'' ''e0'' =
     Inr \<lparr>riskScore = 3, riskLevel = MEDIUM, requiresAdditionalVerification = True\<rparr>"
proof -
  have "registeredEvents young_account = []"
    by (simp add: young_account_def account_def)
  then show ?thesis
    by (simp add: assessRegistrationRisk_def log_then Let_def guard_db_find young_age
          divide_by_capacity_def greater_than_def)
qed

text \<open>
  Claim C4. The claim has the guard return \<open>allowed == false\<close> for a subject with 10
  or more registrations in the last 24 hours, and \<open>allowed == true\<close> with
  \<open>requiresAdditionalVerification == true\<close> when the risk level is not LOW and neither
  the rate limit nor the scan objects. Evaluated at both situations: for the account
  \<open>u2\<close> with 10 recent registrations the rate-limit check alone denies, and for the
  account \<open>u1\<close> (10 days old, no recent registration, no suspicious registration on the
  event) the risk assessment alone gives MEDIUM with the verification flag; in both the
  guard throws a ReferenceError and returns no decision.
\<close>

theorem guard_throws_at_rate_limit_and_at_medium_risk:
  "checkRegistrationRateLimit working_sink guard_db now0 ''u2'' ''e0'' =
     Inr \<lparr>allowed = False,
          message = Some ''Registration limit exceeded. Please try again later.''\<rparr> \<and>
   performEventSecurityCheck working_sink guard_db now0 ''u2'' ''e0'' = Inl ReferenceError \<and>
   checkRegistrationRateLimit working_sink guard_db now0 ''u1'' ''e0'' =
     Inr \<lparr>allowed = True, message = None\<rparr> \<and>
   registrations_pipeline guard_db ''e0'' = [] \<and>
   assessRegistrationRisk working_sink guard_db now0 ''u1'' ''e0'' =
     Inr \<lparr>riskScore = 3, riskLevel = MEDIUM, requiresAdditionalVerification = True\<rparr> \<and>
   performEventSecurityCheck working_sink guard_db now0 ''u1'' ''e0'' = Inl ReferenceError"
proof -
  have "performEventSecurityCheck working_sink guard_db now0 ''u2'' ''e0'' = Inl ReferenceError"
    "performEventSecurityCheck working_sink guard_db now0 ''u1'' ''e0'' = Inl ReferenceError"
    by (simp_all add: performEventSecurityCheck_def scan_throws)
  moreover have "checkRegistrationRateLimit working_sink guard_db now0 ''u2'' ''e0'' =
     Inr \<lparr>allowed = False,
          message = Some ''Registration limit exceeded. Please try again later.''\<rparr>"
    unfolding rate_limit_value guard_db_counts by simp
  moreover have "checkRegistrationRateLimit working_sink guard_db now0 ''u1'' ''e0'' =
     Inr \<lparr>allowed = True, message = None\<rparr>"
    unfolding rate_limit_value guard_db_counts by simp
  ultimately show ?thesis
    using guard_db_pipeline guard_db_assessment by blast
qed

section \<open>Audit logging never fails its caller\<close>

text \<open>
  Claim C9. \<open>AuditLogService.log\<close> returns normally for every argument and every
  behaviour of the audit store; when building or persisting the entry fails, the error
  is swallowed and the call returns \<open>undefined\<close>. The results of the decision paths
  that call it and reach the call (the rate-limit check and the registration risk
  assessment) are the same for any two audit stores, failing or not.
\<close>

theorem audit_log_failure_never_propagates:
  "(\<exists>r. AuditLogService_log store now options = Inr r) \<and>
   ((\<exists>err. log_body store now options = Inl err) \<longrightarrow>
      AuditLogService_log store now options = Inr None) \<and>
   checkRegistrationRateLimit sink db now i eventId =
     checkRegistrationRateLimit sink' db now i eventId \<and>
   assessRegistrationRisk sink db now i eventId = assessRegistrationRisk sink' db now i eventId"
  using log_never_throws [of store now options] log_swallows [of store now options]
    rate_limit_sink_independent [of sink db now i eventId sink']
    assess_sink_independent [of sink db now i eventId sink']
  by blast

text \<open>
  An audit store that refuses every write: persisting a valid login entry fails with
  the store's error and \<open>log\<close> returns \<open>undefined\<close>. The rate-limit check of the
  account with 10 recent registrations, which logs before it returns, denies with the
  refusing store as it does with a working one.
\<close>

theorem audit_log_failure_never_propagates_witness:
  "log_body broken_sink now0
     (log_call (Some ''u2'') ''LOGIN_ATTEMPT'' (IpFraudDetection [] 0) None) = Inl StoreError \<and>
   AuditLogService_log broken_sink now0
     (log_call (Some ''u2'') ''LOGIN_ATTEMPT'' (IpFraudDetection [] 0) None) = Inr None \<and>
   checkRegistrationRateLimit broken_sink guard_db now0 ''u2'' ''e0'' =
     checkRegistrationRateLimit working_sink guard_db now0 ''u2'' ''e0'' \<and>
   checkRegistrationRateLimit broken_sink guard_db now0 ''u2'' ''e0'' =
     Inr \<lparr>allowed = False,
          message = Some ''Registration limit exceeded. Please try again later.''\<rparr>"
proof -
  note main = audit_log_failure_never_propagates
    [of broken_sink now0 "log_call (Some ''u2'') ''LOGIN_ATTEMPT'' (IpFraudDetection [] 0) None"
        broken_sink guard_db "''u2''" "''e0''" working_sink]
  have fails: "\<exists>err. log_body broken_sink now0
     (log_call (Some ''u2'') ''LOGIN_ATTEMPT'' (IpFraudDetection [] 0) None) = Inl err"
    using broken_sink_fails by blast
  from main fails have swallowed: "AuditLogService_log broken_sink now0
     (log_call (Some ''u2'') ''LOGIN_ATTEMPT'' (IpFraudDetection [] 0) None) = Inr None"
    by blast
  from main have same: "checkRegistrationRateLimit broken_sink guard_db now0 ''u2'' ''e0'' =
     checkRegistrationRateLimit working_sink guard_db now0 ''u2'' ''e0''"
    by blast
  have denies: "checkRegistrationRateLimit broken_sink guard_db now0 ''u2'' ''e0'' =
     Inr \<lparr>allowed = False,
          message = Some ''Registration limit exceeded. Please try again later.''\<rparr>"
    unfolding rate_limit_value guard_db_counts by simp
  show ?thesis
    by (intro conjI broken_sink_fails swallowed same denies)
qed

section \<open>Properties of the access tokens\<close>









end
